theory Spec2Isabelle
  imports Main "HOL-Library.List_Lexorder"
begin

section \<open>Python values\<close>

text \<open>
  A Python \<open>str\<close> is a sequence of Unicode code points; a literal of the source is
  written \<open>S ''...''\<close>. The apostrophe (code point 39) that the messages of the source
  put around names is added by \<open>quoted\<close>.
\<close>

type_synonym pystr = "nat list"

abbreviation S :: "string \<Rightarrow> pystr" where
  "S s \<equiv> map of_char s"

definition quoted :: "pystr \<Rightarrow> pystr" where
  "quoted s = [39] @ s @ [39]"

text \<open>
  The values \<open>json.load\<close> produces. \<open>JFloat m e\<close> is the float \<open>m * 2 ^ e\<close>;
  \<open>JObj\<close> holds the items of the dict in insertion order (a dict has distinct keys).
\<close>

datatype json =
    JNull
  | JBool bool
  | JInt int
  | JFloat int int
  | JStr pystr
  | JArr "json list"
  | JObj "(pystr \<times> json) list"

text \<open>Exceptions that the source does not catch, and the result of a call.\<close>

datatype exn =
    TypeError
  | AttributeError
  | KeyError
  | FileNotFoundError
  | IsADirectoryError
  | OtherError pystr

datatype 'a result = Returns 'a | Raises exn

text \<open>Python truthiness (\<open>if x:\<close>, \<open>not x\<close>) of a loaded value.\<close>

fun truthy :: "json \<Rightarrow> bool" where
  "truthy JNull = False"
| "truthy (JBool b) = b"
| "truthy (JInt i) = (i \<noteq> 0)"
| "truthy (JFloat m e) = (m \<noteq> 0)"
| "truthy (JStr s) = (s \<noteq> [])"
| "truthy (JArr xs) = (xs \<noteq> [])"
| "truthy (JObj kvs) = (kvs \<noteq> [])"

text \<open>\<open>isinstance(x, dict)\<close>.\<close>

fun is_dict :: "json \<Rightarrow> bool" where
  "is_dict (JObj kvs) = True"
| "is_dict _ = False"

text \<open>\<open>x in s\<close> for two strings: \<open>x\<close> occurs in \<open>s\<close> as a contiguous run.\<close>

fun substring :: "pystr \<Rightarrow> pystr \<Rightarrow> bool" where
  "substring x [] = (x = [])"
| "substring x (c # cs) = (take (length x) (c # cs) = x \<or> substring x cs)"

text \<open>
  \<open>field in manifest\<close>: key membership on a dict, element membership on a list,
  substring on a string, and TypeError (\<open>None\<close> here) on everything else.
\<close>

fun py_contains :: "json \<Rightarrow> pystr \<Rightarrow> bool option" where
  "py_contains (JObj kvs) k = Some (k \<in> set (map fst kvs))"
| "py_contains (JArr xs) k = Some (JStr k \<in> set xs)"
| "py_contains (JStr s) k = Some (substring k s)"
| "py_contains _ k = None"

text \<open>\<open>d.get(key)\<close>: the value, \<open>None\<close> for a missing key, AttributeError off a dict.\<close>

fun py_get :: "json \<Rightarrow> pystr \<Rightarrow> json result" where
  "py_get (JObj kvs) k = Returns (case map_of kvs k of None \<Rightarrow> JNull | Some v \<Rightarrow> v)"
| "py_get _ k = Raises AttributeError"

text \<open>\<open>str(n)\<close> for an integer.\<close>

fun digits :: "nat \<Rightarrow> pystr" where
  "digits n = (if n < 10 then [48 + n] else digits (n div 10) @ [48 + n mod 10])"

declare digits.simps [simp del]

definition str_of_int :: "int \<Rightarrow> pystr" where
  "str_of_int i = (if i < 0 then [45] @ digits (nat (- i)) else digits (nat i))"

text \<open>
  What the interpreter supplies and the source does not define: the Unicode tables
  \<open>XID_Start\<close> and \<open>XID_Continue\<close> beyond Latin-1, \<open>str(x)\<close> of a value that is not a
  string (used by the f-strings), and \<open>os.path.abspath\<close>.
\<close>

record runtime =
  xid_start_ext :: "nat \<Rightarrow> bool"
  xid_continue_ext :: "nat \<Rightarrow> bool"
  str_of_value :: "json \<Rightarrow> pystr"
  abspath :: "pystr \<Rightarrow> pystr"

text \<open>\<open>f"{x}"\<close>: a string is inserted as it is.\<close>

definition fmt :: "runtime \<Rightarrow> json \<Rightarrow> pystr" where
  "fmt rt v = (case v of JStr s \<Rightarrow> s | _ \<Rightarrow> str_of_value rt v)"

subsection \<open>\<open>str.isidentifier\<close>\<close>

definition ascii_letter :: "nat \<Rightarrow> bool" where
  "ascii_letter c = ((65 \<le> c \<and> c \<le> 90) \<or> (97 \<le> c \<and> c \<le> 122))"

definition ascii_digit :: "nat \<Rightarrow> bool" where
  "ascii_digit c = (48 \<le> c \<and> c \<le> 57)"

text \<open>
  \<open>XID_Start\<close> and \<open>XID_Continue\<close> of the Unicode database: written out for the
  code points below 256 (ASCII and Latin-1), taken from the runtime above that.
\<close>

definition xid_start :: "runtime \<Rightarrow> nat \<Rightarrow> bool" where
  "xid_start rt c =
     (if c < 128 then ascii_letter c
      else if c < 256 then
        c = 170 \<or> c = 181 \<or> c = 186 \<or> (192 \<le> c \<and> c \<le> 214) \<or> (216 \<le> c \<and> c \<le> 246) \<or> 248 \<le> c
      else xid_start_ext rt c)"

definition xid_continue :: "runtime \<Rightarrow> nat \<Rightarrow> bool" where
  "xid_continue rt c =
     (if c < 128 then ascii_letter c \<or> ascii_digit c \<or> c = 95
      else if c < 256 then
        c = 170 \<or> c = 181 \<or> c = 183 \<or> c = 186 \<or> (192 \<le> c \<and> c \<le> 214) \<or> (216 \<le> c \<and> c \<le> 246)
        \<or> 248 \<le> c
      else xid_continue_ext rt c)"

text \<open>
  \<open>s.isidentifier()\<close>: not empty, the first code point is \<open>_\<close> or in \<open>XID_Start\<close>,
  every other one is in \<open>XID_Continue\<close>.
\<close>

definition isidentifier :: "runtime \<Rightarrow> pystr \<Rightarrow> bool" where
  "isidentifier rt s =
     (case s of
        [] \<Rightarrow> False
      | c # cs \<Rightarrow> (xid_start rt c \<or> c = 95) \<and> list_all (xid_continue rt) cs)"

text \<open>
  The pattern \<open>^[A-Za-z_][A-Za-z0-9_]*$\<close> of the specification, as a predicate of its
  own to compare \<open>isidentifier\<close> with.
\<close>

definition matches_domain_pattern :: "pystr \<Rightarrow> bool" where
  "matches_domain_pattern s =
     (case s of
        [] \<Rightarrow> False
      | c # cs \<Rightarrow> (ascii_letter c \<or> c = 95)
          \<and> list_all (\<lambda>d. ascii_letter d \<or> ascii_digit d \<or> d = 95) cs)"

section \<open>Output and the file system\<close>

text \<open>One \<open>print\<close> call: the text written (a newline follows it) and its stream.\<close>

datatype event = Stdout pystr | Stderr pystr


fun stderr_text :: "event list \<Rightarrow> pystr" where
  "stderr_text [] = []"
| "stderr_text (Stderr s # es) = s @ [10] @ stderr_text es"
| "stderr_text (Stdout s # es) = stderr_text es"


text \<open>\<open>error(message, file, line, col)\<close>, lines 16 to 30.\<close>

definition error :: "pystr \<Rightarrow> pystr option \<Rightarrow> int option \<Rightarrow> int option \<Rightarrow> event list" where
  "error message file line col =
     (let location = [];
          location = (case file of
                        Some f \<Rightarrow> if f \<noteq> [] then location @ S ''file='' @ f else location
                      | None \<Rightarrow> location);
          location = (case line of
                        Some n \<Rightarrow> if n \<noteq> 0 then location @ S '',line='' @ str_of_int n else location
                      | None \<Rightarrow> location);
          location = (case col of
                        Some n \<Rightarrow> if n \<noteq> 0 then location @ S '',col='' @ str_of_int n else location
                      | None \<Rightarrow> location)
      in (if location \<noteq> []
          then [Stdout (S ''::error '' @ location @ S ''::'' @ message)]
          else [Stdout (S ''::error::'' @ message)])
         @ [Stderr (S ''ERROR: '' @ message)])"

text \<open>
  The file system: what is at a path. A file is known by what \<open>open\<close> followed by
  \<open>json.load\<close> does on it: a value, a JSONDecodeError, or another exception
  (one that the source does not catch).
\<close>

record json_decode_error =
  msg :: pystr
  lineno :: nat
  colno :: nat
  pos :: nat

datatype load_outcome =
    Loaded json
  | DecodeError json_decode_error
  | LoadRaises exn

datatype node = Dir | File load_outcome

type_synonym filesystem = "pystr \<Rightarrow> node option"

definition path_exists :: "filesystem \<Rightarrow> pystr \<Rightarrow> bool" where
  "path_exists fs p = (fs p \<noteq> None)"

definition isdir :: "filesystem \<Rightarrow> pystr \<Rightarrow> bool" where
  "isdir fs p = (fs p = Some Dir)"

definition json_load :: "filesystem \<Rightarrow> pystr \<Rightarrow> load_outcome" where
  "json_load fs p =
     (case fs p of
        None \<Rightarrow> LoadRaises FileNotFoundError
      | Some Dir \<Rightarrow> LoadRaises IsADirectoryError
      | Some (File out) \<Rightarrow> out)"

text \<open>\<open>str(e)\<close> of a JSONDecodeError.\<close>

definition str_of_decode_error :: "json_decode_error \<Rightarrow> pystr" where
  "str_of_decode_error e =
     msg e @ S '': line '' @ digits (lineno e) @ S '' column '' @ digits (colno e)
     @ S '' (char '' @ digits (pos e) @ S '')''"

text \<open>\<open>os.path.join(a, b)\<close> on POSIX, for two strings.\<close>

definition path_join :: "pystr \<Rightarrow> pystr \<Rightarrow> pystr" where
  "path_join a b =
     (if (case b of [] \<Rightarrow> False | c # _ \<Rightarrow> c = 47) then b
      else if a = [] \<or> last a = 47 then a @ b
      else a @ [47] @ b)"

section \<open>The validator\<close>

text \<open>\<open>validate_addons_json(repo_path)\<close>, lines 32 to 49.\<close>

definition validate_addons_json :: "filesystem \<Rightarrow> pystr \<Rightarrow> json option result \<times> event list" where
  "validate_addons_json fs repo_path =
     (let json_path = path_join repo_path (S ''addons.json'') in
      if \<not> path_exists fs json_path then
        (Returns None, error (S ''addons.json missing in repository root'') (Some json_path) None None)
      else
        (case json_load fs json_path of
           LoadRaises x \<Rightarrow> (Raises x, [])
         | DecodeError e \<Rightarrow>
             (Returns None,
              error (S ''Invalid JSON in addons.json: '' @ msg e) (Some json_path)
                (Some (int (lineno e))) (Some (int (colno e))))
         | Loaded data \<Rightarrow>
             (case py_contains data (S ''addons'') of
                None \<Rightarrow> (Raises TypeError, [])
              | Some False \<Rightarrow>
                  (Returns None,
                   error (S ''addons.json must contain a top-level '' @ quoted (S ''addons'') @ S '' list'')
                     (Some json_path) None None)
              | Some True \<Rightarrow>
                  (case data of
                     JObj kvs \<Rightarrow>
                       (case map_of kvs (S ''addons'') of
                          Some (JArr xs) \<Rightarrow> (Returns (Some data), [])
                        | Some _ \<Rightarrow>
                            (Returns None,
                             error (S ''addons.json must contain a top-level '' @ quoted (S ''addons'') @ S '' list'')
                               (Some json_path) None None)
                        | None \<Rightarrow> (Raises KeyError, []))
                   | _ \<Rightarrow> (Raises TypeError, [])))))"

text \<open>
  One check of \<open>validate_addon_directory\<close>: \<open>None\<close> when execution goes on to the next
  statement, \<open>Some r\<close> when the function is left there (\<open>return False\<close> or an exception),
  with what was printed.
\<close>

type_synonym check = "bool result option \<times> event list"

definition then_do :: "check \<Rightarrow> check \<Rightarrow> check" where
  "then_do a b = (case a of (None, t) \<Rightarrow> (fst b, t @ snd b) | (Some r, t) \<Rightarrow> (Some r, t))"

text \<open>Falling through every check reaches \<open>return True\<close> (line 115).\<close>

definition finish :: "check \<Rightarrow> bool result \<times> event list" where
  "finish a = (case a of (None, t) \<Rightarrow> (Returns True, t) | (Some r, t) \<Rightarrow> (r, t))"

text \<open>Required fields, lines 71 to 76: the loop over the three field names.\<close>

fun required_fields_loop :: "json \<Rightarrow> pystr \<Rightarrow> pystr list \<Rightarrow> check" where
  "required_fields_loop manifest manifest_path [] = (None, [])"
| "required_fields_loop manifest manifest_path (field # rest) =
     (case py_contains manifest field of
        None \<Rightarrow> (Some (Raises TypeError), [])
      | Some False \<Rightarrow>
          (Some (Returns False),
           error (S ''manifest.json missing required field '' @ quoted field) (Some manifest_path) None None)
      | Some True \<Rightarrow> required_fields_loop manifest manifest_path rest)"

definition required_manifest_fields :: "pystr list" where
  "required_manifest_fields = [S ''domain'', S ''name'', S ''version'']"

definition check_required_fields :: "json \<Rightarrow> pystr \<Rightarrow> check" where
  "check_required_fields manifest manifest_path =
     required_fields_loop manifest manifest_path required_manifest_fields"

text \<open>Domain validation, lines 78 to 82.\<close>

definition check_domain :: "runtime \<Rightarrow> json \<Rightarrow> pystr \<Rightarrow> check" where
  "check_domain rt manifest manifest_path =
     (case py_get manifest (S ''domain'') of
        Raises x \<Rightarrow> (Some (Raises x), [])
      | Returns domain \<Rightarrow>
          (case domain of
             JStr d \<Rightarrow>
               if \<not> isidentifier rt d then
                 (Some (Returns False),
                  error (S ''Invalid domain '' @ quoted d
                         @ S ''. Must be a valid identifier (alphanumeric, underscore).'')
                    (Some manifest_path) None None)
               else (None, [])
           | _ \<Rightarrow> (Some (Raises AttributeError), [])))"

text \<open>Implementations, lines 84 to 102: the loop over the items of the map.\<close>

fun implementations_loop :: "filesystem \<Rightarrow> pystr \<Rightarrow> pystr \<Rightarrow> (pystr \<times> json) list \<Rightarrow> check" where
  "implementations_loop fs addon_path addon_id [] = (None, [])"
| "implementations_loop fs addon_path addon_id ((lang, filename) # items) =
     (case filename of
        JStr fname \<Rightarrow>
          (let file_path = path_join addon_path fname in
           if \<not> path_exists fs file_path then
             (Some (Returns False),
              error (S ''Implementation file '' @ quoted fname @ S '' for '' @ quoted lang
                     @ S '' not found in '' @ quoted addon_id)
                (Some file_path) None None)
           else implementations_loop fs addon_path addon_id items)
      | _ \<Rightarrow> (Some (Raises TypeError), []))"

definition check_implementations :: "filesystem \<Rightarrow> json \<Rightarrow> pystr \<Rightarrow> pystr \<Rightarrow> pystr \<Rightarrow> check" where
  "check_implementations fs manifest addon_path manifest_path addon_id =
     (case py_get manifest (S ''implementations'') of
        Raises x \<Rightarrow> (Some (Raises x), [])
      | Returns implementations \<Rightarrow>
          then_do
            (if \<not> truthy implementations \<or> \<not> is_dict implementations then
               (if path_exists fs (path_join addon_path (S ''integration.py'')) then (None, [])
                else
                  (Some (Returns False),
                   error (S ''manifest.json in '' @ quoted addon_id @ S '' missing ''
                          @ quoted (S ''implementations'') @ S '' map, and no implicit ''
                          @ quoted (S ''integration.py'') @ S '' found.'')
                     (Some manifest_path) None None))
             else (None, []))
            (if truthy implementations then
               (case implementations of
                  JObj items \<Rightarrow> implementations_loop fs addon_path addon_id items
                | _ \<Rightarrow> (Some (Raises AttributeError), []))
             else (None, [])))"

text \<open>
  Core version compatibility, lines 104 to 113. \<open>version\<close> is the module
  \<open>packaging.version\<close>, or \<open>None\<close> when the import at the top of the file failed. Of the
  module only \<open>parse\<close> is used: on a value it gives a version, an element of a linear
  order, or raises an exception (\<open>Inl\<close>, with the text of the exception).
\<close>

definition check_core_version ::
  "runtime \<Rightarrow> (json \<Rightarrow> pystr + 'v::linorder) option \<Rightarrow> json \<Rightarrow> pystr \<Rightarrow> pystr \<Rightarrow> pystr option \<Rightarrow> check" where
  "check_core_version rt version manifest manifest_path addon_id core_version =
     (case py_get manifest (S ''min_core_version'') of
        Raises x \<Rightarrow> (Some (Raises x), [])
      | Returns min_ver \<Rightarrow>
          (case (core_version, version) of
             (Some core, Some parse) \<Rightarrow>
               if truthy min_ver \<and> core \<noteq> [] then
                 (let failed = (\<lambda>e.
                        (Some (Returns False),
                         error (S ''Version comparison failed for '' @ quoted addon_id
                                @ S '' (min: '' @ fmt rt min_ver @ S '', core: '' @ core @ S ''): '' @ e)
                           (Some manifest_path) None None)) in
                  case parse min_ver of
                    Inl e \<Rightarrow> failed e
                  | Inr a \<Rightarrow>
                      (case parse (JStr core) of
                         Inl e \<Rightarrow> failed e
                       | Inr c \<Rightarrow>
                           if a > c then
                             (Some (Returns False),
                              error (S ''Addon '' @ quoted addon_id @ S '' requires Core >= ''
                                     @ fmt rt min_ver @ S '', but current Core is '' @ core)
                                (Some manifest_path) None None)
                           else (None, [])))
               else (None, [])
           | _ \<Rightarrow> (None, [])))"

text \<open>The checks on a loaded manifest, lines 71 to 115.\<close>

definition validate_manifest ::
  "runtime \<Rightarrow> (json \<Rightarrow> pystr + 'v::linorder) option \<Rightarrow> filesystem \<Rightarrow> json \<Rightarrow> pystr \<Rightarrow> pystr
     \<Rightarrow> pystr \<Rightarrow> pystr option \<Rightarrow> bool result \<times> event list" where
  "validate_manifest rt version fs manifest addon_path manifest_path addon_id core_version =
     finish
       (then_do (check_required_fields manifest manifest_path)
       (then_do (check_domain rt manifest manifest_path)
       (then_do (check_implementations fs manifest addon_path manifest_path addon_id)
                (check_core_version rt version manifest manifest_path addon_id core_version))))"

text \<open>
  \<open>validate_addon_directory(repo_path, addon_id, core_version)\<close>, lines 51 to 115.
  The caller passes whatever the index has under \<open>id\<close>; \<open>os.path.join\<close> raises
  TypeError on anything but a string.
\<close>

definition validate_addon_directory ::
  "runtime \<Rightarrow> (json \<Rightarrow> pystr + 'v::linorder) option \<Rightarrow> filesystem \<Rightarrow> pystr \<Rightarrow> json
     \<Rightarrow> pystr option \<Rightarrow> bool result \<times> event list" where
  "validate_addon_directory rt version fs repo_path addon_id_value core_version =
     (case addon_id_value of
        JStr addon_id \<Rightarrow>
          (let addon_path = path_join repo_path addon_id in
           if \<not> isdir fs addon_path then
             (Returns False,
              error (S ''Directory not found for addon '' @ quoted addon_id) (Some addon_path) None None)
           else
             (let manifest_path = path_join addon_path (S ''manifest.json'') in
              if \<not> path_exists fs manifest_path then
                (Returns False,
                 error (S ''Missing manifest.json for addon '' @ quoted addon_id)
                   (Some manifest_path) None None)
              else
                (case json_load fs manifest_path of
                   LoadRaises x \<Rightarrow> (Raises x, [])
                 | DecodeError e \<Rightarrow>
                     (Returns False,
                      error (S ''Invalid JSON in manifest.json for '' @ quoted addon_id @ S '': ''
                             @ str_of_decode_error e)
                        (Some manifest_path) None None)
                 | Loaded manifest \<Rightarrow>
                     validate_manifest rt version fs manifest addon_path manifest_path addon_id
                       core_version)))
      | _ \<Rightarrow> (Raises TypeError, []))"

section \<open>The driver\<close>

text \<open>
  The loop of \<open>main\<close>, lines 138 to 149, from entry \<open>i\<close> with the flag \<open>success\<close>:
  the flag at the end of the list, or the exception that ended the loop.
\<close>

fun main_loop ::
  "runtime \<Rightarrow> (json \<Rightarrow> pystr + 'v::linorder) option \<Rightarrow> filesystem \<Rightarrow> pystr \<Rightarrow> pystr option
     \<Rightarrow> nat \<Rightarrow> bool \<Rightarrow> json list \<Rightarrow> bool result \<times> event list" where
  "main_loop rt version fs repo_path core_ver i success [] = (Returns success, [])"
| "main_loop rt version fs repo_path core_ver i success (addon # addons) =
     (case py_get addon (S ''id'') of
        Raises x \<Rightarrow> (Raises x, [])
      | Returns addon_id \<Rightarrow>
          if \<not> truthy addon_id then
            (let t = error (S ''Addon entry at index '' @ digits i @ S '' missing '' @ quoted (S ''id''))
                       (Some (path_join repo_path (S ''addons.json''))) None None;
                 (r, t') = main_loop rt version fs repo_path core_ver (Suc i) False addons
             in (r, t @ t'))
          else
            (let t = [Stdout (S ''Validating addon: '' @ fmt rt addon_id @ S ''...'')] in
             case validate_addon_directory rt version fs repo_path addon_id core_ver of
               (Raises x, t1) \<Rightarrow> (Raises x, t @ t1)
             | (Returns ok, t1) \<Rightarrow>
                 (let (r, t') = main_loop rt version fs repo_path core_ver (Suc i)
                                  (if \<not> ok then False else success) addons
                  in (r, t @ t1 @ t'))))"

text \<open>
  How the process ends: \<open>sys.exit(n)\<close>, or an exception nobody caught (the interpreter
  prints the traceback and the exit status is 1).
\<close>

datatype ending = Exit nat | Uncaught exn

fun exit_status :: "ending \<Rightarrow> nat" where
  "exit_status (Exit n) = n"
| "exit_status (Uncaught x) = 1"

text \<open>
  \<open>main()\<close> from line 123 on, given the parsed arguments \<open>repo_path\<close> and
  \<open>core_version\<close>.
\<close>

definition main ::
  "runtime \<Rightarrow> (json \<Rightarrow> pystr + 'v::linorder) option \<Rightarrow> filesystem \<Rightarrow> pystr \<Rightarrow> pystr option
     \<Rightarrow> ending \<times> event list" where
  "main rt version fs args_repo_path args_core_version =
     (let repo_path = abspath rt args_repo_path;
          core_ver = args_core_version;
          t0 = [Stdout (S ''Validating repository at: '' @ repo_path)]
               @ (case core_ver of
                    Some c \<Rightarrow>
                      if c \<noteq> [] then [Stdout (S ''Checking compatibility against Core Version: '' @ c)]
                      else []
                  | None \<Rightarrow> [])
      in case validate_addons_json fs repo_path of
           (Raises x, t1) \<Rightarrow> (Uncaught x, t0 @ t1)
         | (Returns None, t1) \<Rightarrow> (Exit 1, t0 @ t1)
         | (Returns (Some db), t1) \<Rightarrow>
             if \<not> truthy db then (Exit 1, t0 @ t1)
             else
               (case py_get db (S ''addons'') of
                  Returns (JArr addons) \<Rightarrow>
                    (case main_loop rt version fs repo_path core_ver 0 True addons of
                       (Raises x, t2) \<Rightarrow> (Uncaught x, t0 @ t1 @ t2)
                     | (Returns success, t2) \<Rightarrow>
                         if \<not> success then (Exit 1, t0 @ t1 @ t2 @ [Stdout (S ''Validation FAILED.'')])
                         else (Exit 0, t0 @ t1 @ t2 @ [Stdout (S ''Validation SUCCESSFUL.'')]))
                | Returns _ \<Rightarrow> (Uncaught TypeError, t0 @ t1)
                | Raises x \<Rightarrow> (Uncaught x, t0 @ t1)))"

section \<open>A version module and a repository to run the validator on\<close>

text \<open>
  Modelled from the spec: \<open>packaging.version.parse\<close>, which is not part of this
  repository, on the strings that are a release only: numbers separated by dots
  ("mixed-radix dotted sequences"). A version is its list of numbers without the
  trailing zeros, ordered as Python orders tuples; every other value raises.
\<close>

fun split_dots :: "pystr \<Rightarrow> pystr list" where
  "split_dots [] = [[]]"
| "split_dots (c # cs) =
     (if c = 46 then [] # split_dots cs
      else (case split_dots cs of [] \<Rightarrow> [[c]] | p # ps \<Rightarrow> (c # p) # ps))"

definition number_of :: "pystr \<Rightarrow> nat option" where
  "number_of ds =
     (if ds \<noteq> [] \<and> list_all ascii_digit ds
      then Some (foldl (\<lambda>a d. 10 * a + (d - 48)) 0 ds) else None)"

definition release_parse :: "json \<Rightarrow> pystr + nat list" where
  "release_parse v =
     (case v of
        JStr s \<Rightarrow>
          (let ns = map number_of (split_dots s) in
           if list_all (\<lambda>n. n \<noteq> None) ns
           then Inr (rev (dropWhile (\<lambda>n. n = 0) (rev (map the ns))))
           else Inl (S ''Invalid version: '' @ quoted s))
      | _ \<Rightarrow> Inl (S ''expected string or bytes-like object''))"

text \<open>A runtime that knows no identifier character beyond Latin-1.\<close>

definition plain_runtime :: runtime where
  "plain_runtime =
     \<lparr> xid_start_ext = (\<lambda>c. False), xid_continue_ext = (\<lambda>c. False),
       str_of_value = (\<lambda>v. S ''?''), abspath = (\<lambda>p. p) \<rparr>"

text \<open>
  A repository \<open>/r\<close> with one addon directory \<open>/r/a\<close> holding the given manifest and,
  when \<open>impl\<close> is set, a file \<open>integration.py\<close>; the index is there when given.
\<close>

definition python_file :: node where
  "python_file = File (DecodeError \<lparr> msg = S ''Expecting value'', lineno = 1, colno = 1, pos = 0 \<rparr>)"

definition repo_with :: "json option \<Rightarrow> json \<Rightarrow> bool \<Rightarrow> filesystem" where
  "repo_with index manifest impl =
     (\<lambda>p. if p = S ''/r'' then Some Dir
          else if p = S ''/r/addons.json'' then map_option (\<lambda>d. File (Loaded d)) index
          else if p = S ''/r/a'' then Some Dir
          else if p = S ''/r/a/manifest.json'' then Some (File (Loaded manifest))
          else if p = S ''/r/a/integration.py'' \<and> impl then Some python_file
          else None)"

text \<open>The manifest \<open>{"domain": d, "name": "A", "version": "1.0"}\<close> and more items.\<close>

definition manifest_with :: "json \<Rightarrow> (pystr \<times> json) list \<Rightarrow> json" where
  "manifest_with d extra =
     JObj ([(S ''domain'', d), (S ''name'', JStr (S ''A'')), (S ''version'', JStr (S ''1.0''))] @ extra)"

text \<open>The index entry \<open>{"id": a}\<close> and the index \<open>{"addons": entries}\<close>.\<close>

definition entry_with_id :: "pystr \<Rightarrow> json" where
  "entry_with_id a = JObj [(S ''id'', JStr a)]"

definition index_of :: "json list \<Rightarrow> json" where
  "index_of entries = JObj [(S ''addons'', JArr entries)]"

section \<open>Properties\<close>

text \<open>
  The addon directory is there and its manifest loads to \<open>manifest\<close>: the state in which
  the checks on the manifest run.
\<close>

definition manifest_loaded :: "filesystem \<Rightarrow> pystr \<Rightarrow> pystr \<Rightarrow> json \<Rightarrow> bool" where
  "manifest_loaded fs repo_path addon_id manifest =
     (isdir fs (path_join repo_path addon_id)
      \<and> json_load fs (path_join (path_join repo_path addon_id) (S ''manifest.json'')) = Loaded manifest)"

definition has_key :: "(pystr \<times> json) list \<Rightarrow> pystr \<Rightarrow> bool" where
  "has_key kvs k = (k \<in> set (map fst kvs))"

text \<open>
  The index \<open>addons.json\<close> loads to the dict \<open>kvs\<close>, whose \<open>addons\<close> is the list
  \<open>entries\<close>.
\<close>

definition index_loaded :: "filesystem \<Rightarrow> pystr \<Rightarrow> (pystr \<times> json) list \<Rightarrow> json list \<Rightarrow> bool" where
  "index_loaded fs repo_path kvs entries =
     (json_load fs (path_join repo_path (S ''addons.json'')) = Loaded (JObj kvs)
      \<and> map_of kvs (S ''addons'') = Some (JArr entries))"

text \<open>What \<open>main\<close> prints before it reads the index (lines 126 to 128).\<close>

definition banner :: "pystr \<Rightarrow> pystr option \<Rightarrow> event list" where
  "banner repo_path core_ver =
     [Stdout (S ''Validating repository at: '' @ repo_path)]
     @ (case core_ver of
          Some c \<Rightarrow>
            if c \<noteq> [] then [Stdout (S ''Checking compatibility against Core Version: '' @ c)]
            else []
        | None \<Rightarrow> [])"

subsection \<open>The error reporter\<close>





lemma stderr_text_append: "stderr_text (t @ u) = stderr_text t @ stderr_text u"
  by (induction t rule: stderr_text.induct) simp_all





subsection \<open>The checks on a manifest\<close>

lemma validate_addon_directory_loaded:
  "manifest_loaded fs repo_path addon_id manifest \<Longrightarrow>
   validate_addon_directory rt version fs repo_path (JStr addon_id) core
   = validate_manifest rt version fs manifest (path_join repo_path addon_id)
       (path_join (path_join repo_path addon_id) (S ''manifest.json'')) addon_id core"
  unfolding validate_addon_directory_def manifest_loaded_def json_load_def path_exists_def
  by (auto simp add: Let_def split: option.splits node.splits)

lemma required_fields_present:
  "has_key kvs (S ''domain'') \<Longrightarrow> has_key kvs (S ''name'') \<Longrightarrow> has_key kvs (S ''version'')
   \<Longrightarrow> check_required_fields (JObj kvs) manifest_path = (None, [])"
  by (simp add: check_required_fields_def required_manifest_fields_def has_key_def)

lemma then_do_pass [simp]: "then_do (None, []) b = b"
  by (simp add: then_do_def)

lemma then_do_stop [simp]: "then_do (Some r, t) b = (Some r, t)"
  by (simp add: then_do_def)

lemma finish_stop [simp]: "finish (Some r, t) = (r, t)"
  by (simp add: finish_def)

lemma ascii_isidentifier:
  "\<forall>c\<in>set d. c < 128 \<Longrightarrow> isidentifier rt d = matches_domain_pattern d"
  by (cases d) (auto simp add: isidentifier_def matches_domain_pattern_def xid_start_def
      xid_continue_def list_all_iff)

lemma pattern_ascii: "matches_domain_pattern d \<Longrightarrow> \<forall>c\<in>set d. c < 128"
  by (cases d) (auto simp add: matches_domain_pattern_def ascii_letter_def ascii_digit_def
      list_all_iff)

lemma check_domain_string:
  "map_of kvs (S ''domain'') = Some (JStr d) \<Longrightarrow>
   check_domain rt (JObj kvs) manifest_path
   = (if isidentifier rt d then (None, [])
      else (Some (Returns False),
            error (S ''Invalid domain '' @ quoted d
                   @ S ''. Must be a valid identifier (alphanumeric, underscore).'')
              (Some manifest_path) None None))"
  by (simp add: check_domain_def)

text \<open>
  C1 (amended). For an addon whose manifest loads, has the three required keys and has
  a string \<open>d\<close> under \<open>domain\<close>: every \<open>d\<close> that matches the pattern
  \<open>^[A-Za-z_][A-Za-z0-9_]*$\<close> passes the domain check; every \<open>d\<close> made of ASCII
  characters only that does not match it fails; in general the check passes exactly
  when \<open>d.isidentifier()\<close> holds, and validation goes on to the implementations, and
  otherwise \<open>validate_addon_directory\<close> reports the invalid domain and returns False.
\<close>

theorem domain_syntax_check:
  assumes loaded: "manifest_loaded fs repo_path addon_id (JObj kvs)"
    and keys: "has_key kvs (S ''domain'')" "has_key kvs (S ''name'')" "has_key kvs (S ''version'')"
    and dom: "map_of kvs (S ''domain'') = Some (JStr d)"
    and paths: "addon_path = path_join repo_path addon_id"
      "manifest_path = path_join addon_path (S ''manifest.json'')"
  shows
    "(matches_domain_pattern d \<longrightarrow> isidentifier rt d)
     \<and> ((\<forall>c\<in>set d. c < 128) \<and> \<not> matches_domain_pattern d \<longrightarrow> \<not> isidentifier rt d)
     \<and> (isidentifier rt d \<longrightarrow>
          check_domain rt (JObj kvs) manifest_path = (None, [])
          \<and> validate_addon_directory rt version fs repo_path (JStr addon_id) core
            = finish (then_do (check_implementations fs (JObj kvs) addon_path manifest_path addon_id)
                              (check_core_version rt version (JObj kvs) manifest_path addon_id core)))
     \<and> (\<not> isidentifier rt d \<longrightarrow>
          validate_addon_directory rt version fs repo_path (JStr addon_id) core
          = (Returns False,
             error (S ''Invalid domain '' @ quoted d
                    @ S ''. Must be a valid identifier (alphanumeric, underscore).'')
               (Some manifest_path) None None))"
proof -
  have a: "matches_domain_pattern d \<longrightarrow> isidentifier rt d"
    using ascii_isidentifier [of d rt] pattern_ascii [of d] by blast
  have b: "(\<forall>c\<in>set d. c < 128) \<and> \<not> matches_domain_pattern d \<longrightarrow> \<not> isidentifier rt d"
    using ascii_isidentifier [of d rt] by blast
  have v: "validate_addon_directory rt version fs repo_path (JStr addon_id) core
    = validate_manifest rt version fs (JObj kvs) addon_path manifest_path addon_id core"
    using validate_addon_directory_loaded [OF loaded] paths by simp
  have r: "check_required_fields (JObj kvs) manifest_path = (None, [])"
    using keys by (rule required_fields_present)
  have c: "isidentifier rt d \<longrightarrow>
          check_domain rt (JObj kvs) manifest_path = (None, [])
          \<and> validate_addon_directory rt version fs repo_path (JStr addon_id) core
            = finish (then_do (check_implementations fs (JObj kvs) addon_path manifest_path addon_id)
                              (check_core_version rt version (JObj kvs) manifest_path addon_id core))"
    by (simp add: v validate_manifest_def r check_domain_string [OF dom])
  have e: "\<not> isidentifier rt d \<longrightarrow>
          validate_addon_directory rt version fs repo_path (JStr addon_id) core
          = (Returns False,
             error (S ''Invalid domain '' @ quoted d
                    @ S ''. Must be a valid identifier (alphanumeric, underscore).'')
               (Some manifest_path) None None)"
    by (simp add: v validate_manifest_def r check_domain_string [OF dom])
  show ?thesis using a b c e by blast
qed

lemma repo_with_loaded: "manifest_loaded (repo_with index manifest impl) (S ''/r'') (S ''a'') manifest"
  by (simp add: manifest_loaded_def repo_with_def isdir_def json_load_def path_join_def)

lemma manifest_with_keys:
  "has_key ([(S ''domain'', d), (S ''name'', JStr (S ''A'')), (S ''version'', JStr (S ''1.0''))] @ extra) (S ''domain'')"
  "has_key ([(S ''domain'', d), (S ''name'', JStr (S ''A'')), (S ''version'', JStr (S ''1.0''))] @ extra) (S ''name'')"
  "has_key ([(S ''domain'', d), (S ''name'', JStr (S ''A'')), (S ''version'', JStr (S ''1.0''))] @ extra) (S ''version'')"
  by (simp_all add: has_key_def)

text \<open>
  The theorem at \<open>my_addon1\<close>, which passes, and at \<open>1a\<close>, which fails.
\<close>

theorem domain_syntax_check_witness:
  "matches_domain_pattern (S ''my_addon1'')
   \<and> check_domain plain_runtime (manifest_with (JStr (S ''my_addon1'')) []) (S ''/r/a/manifest.json'') = (None, [])
   \<and> \<not> matches_domain_pattern (S ''1a'')
   \<and> validate_addon_directory plain_runtime (Some release_parse)
        (repo_with None (manifest_with (JStr (S ''1a'')) []) True) (S ''/r'') (JStr (S ''a'')) None
      = (Returns False,
         error (S ''Invalid domain '' @ quoted (S ''1a'')
                @ S ''. Must be a valid identifier (alphanumeric, underscore).'')
           (Some (S ''/r/a/manifest.json'')) None None)"
proof -
  have p: "S ''/r/a'' = path_join (S ''/r'') (S ''a'')"
    "S ''/r/a/manifest.json'' = path_join (S ''/r/a'') (S ''manifest.json'')"
    by (simp_all add: path_join_def)
  have m1: "matches_domain_pattern (S ''my_addon1'')"
    by (simp add: matches_domain_pattern_def ascii_letter_def ascii_digit_def)
  have m2: "\<not> matches_domain_pattern (S ''1a'')"
    by (simp add: matches_domain_pattern_def ascii_letter_def ascii_digit_def)
  have a2: "\<forall>c\<in>set (S ''1a''). c < 128" by simp
  note t1 = domain_syntax_check [where rt = plain_runtime and version = "Some release_parse"
      and core = None and d = "S ''my_addon1''",
      OF repo_with_loaded [of None "manifest_with (JStr (S ''my_addon1'')) []" True, unfolded manifest_with_def]
         manifest_with_keys _ p]
  note t2 = domain_syntax_check [where rt = plain_runtime and version = "Some release_parse"
      and core = None and d = "S ''1a''",
      OF repo_with_loaded [of None "manifest_with (JStr (S ''1a'')) []" True, unfolded manifest_with_def]
         manifest_with_keys _ p]
  show ?thesis using t1 t2 m1 m2 a2 by (simp add: manifest_with_def)
qed

text \<open>
  C1 as stated fails: the domain \<open>e-acute\<close> (code point 233, a non-ASCII letter) does not
  match the pattern, and yet the domain check passes and the addon validates.
\<close>

theorem domain_non_ascii_counterexample:
  "\<not> matches_domain_pattern [233]
   \<and> check_domain plain_runtime (manifest_with (JStr [233]) []) (S ''/r/a/manifest.json'') = (None, [])
   \<and> validate_addon_directory plain_runtime (Some release_parse)
        (repo_with None (manifest_with (JStr [233]) []) True) (S ''/r'') (JStr (S ''a'')) None
      = (Returns True, [])"
  by code_simp

lemma finish_pass [simp]: "finish (None, t) = (Returns True, t)"
  by (simp add: finish_def)

lemma required_fields_loop_find:
  "required_fields_loop (JObj kvs) manifest_path fs
   = (case find (\<lambda>f. \<not> has_key kvs f) fs of
        None \<Rightarrow> (None, [])
      | Some field \<Rightarrow>
          (Some (Returns False),
           error (S ''manifest.json missing required field '' @ quoted field) (Some manifest_path) None None))"
  by (induction fs) (simp_all add: has_key_def)

lemma find_missing:
  "\<not> (has_key kvs (S ''domain'') \<and> has_key kvs (S ''name'') \<and> has_key kvs (S ''version''))
   \<Longrightarrow> \<exists>field. find (\<lambda>f. \<not> has_key kvs f) required_manifest_fields = Some field"
  by (auto simp add: required_manifest_fields_def)

text \<open>
  C3. For a manifest that lacks at least one of the keys \<open>domain\<close>, \<open>name\<close>,
  \<open>version\<close>, \<open>validate_addon_directory\<close> makes exactly one call of the error
  reporter, for the first missing field in that order, and returns False: the result
  depends on nothing that a later check reads.
\<close>

theorem missing_required_field:
  assumes loaded: "manifest_loaded fs repo_path addon_id (JObj kvs)"
    and missing: "\<not> (has_key kvs (S ''domain'') \<and> has_key kvs (S ''name'') \<and> has_key kvs (S ''version''))"
    and path: "manifest_path = path_join (path_join repo_path addon_id) (S ''manifest.json'')"
  shows
    "\<exists>field. find (\<lambda>f. \<not> has_key kvs f) required_manifest_fields = Some field
       \<and> validate_addon_directory rt version fs repo_path (JStr addon_id) core
         = (Returns False,
            error (S ''manifest.json missing required field '' @ quoted field)
              (Some manifest_path) None None)"
proof -
  obtain field where f: "find (\<lambda>f. \<not> has_key kvs f) required_manifest_fields = Some field"
    using find_missing [OF missing] by blast
  have "check_required_fields (JObj kvs) manifest_path
    = (Some (Returns False),
       error (S ''manifest.json missing required field '' @ quoted field) (Some manifest_path) None None)"
    by (simp add: check_required_fields_def required_fields_loop_find f)
  then have "validate_addon_directory rt version fs repo_path (JStr addon_id) core
         = (Returns False,
            error (S ''manifest.json missing required field '' @ quoted field)
              (Some manifest_path) None None)"
    by (simp add: validate_addon_directory_loaded [OF loaded] path validate_manifest_def)
  with f show ?thesis by blast
qed

text \<open>
  The theorem at a manifest without \<open>name\<close>, whose \<open>domain\<close> is the number 5 (which
  the domain check would raise on, if it ran).
\<close>

theorem missing_required_field_witness:
  "\<not> (has_key [(S ''domain'', JInt 5), (S ''version'', JStr (S ''1.0''))] (S ''domain'')
       \<and> has_key [(S ''domain'', JInt 5), (S ''version'', JStr (S ''1.0''))] (S ''name'')
       \<and> has_key [(S ''domain'', JInt 5), (S ''version'', JStr (S ''1.0''))] (S ''version''))
   \<and> validate_addon_directory plain_runtime (Some release_parse)
        (repo_with None (JObj [(S ''domain'', JInt 5), (S ''version'', JStr (S ''1.0''))]) False)
        (S ''/r'') (JStr (S ''a'')) (Some (S ''1.0''))
      = (Returns False,
         error (S ''manifest.json missing required field '' @ quoted (S ''name''))
           (Some (S ''/r/a/manifest.json'')) None None)"
proof -
  have m: "\<not> (has_key [(S ''domain'', JInt 5), (S ''version'', JStr (S ''1.0''))] (S ''domain'')
       \<and> has_key [(S ''domain'', JInt 5), (S ''version'', JStr (S ''1.0''))] (S ''name'')
       \<and> has_key [(S ''domain'', JInt 5), (S ''version'', JStr (S ''1.0''))] (S ''version''))"
    by (simp add: has_key_def)
  have p: "S ''/r/a/manifest.json'' = path_join (path_join (S ''/r'') (S ''a'')) (S ''manifest.json'')"
    by (simp add: path_join_def)
  show ?thesis
    using missing_required_field [OF repo_with_loaded m p, of plain_runtime "Some release_parse" None False "Some (S ''1.0'')"] m
    by (simp add: required_manifest_fields_def has_key_def)
qed

lemma no_key_map_of: "\<not> has_key kvs k \<Longrightarrow> map_of kvs k = None"
  by (simp add: has_key_def map_of_eq_None_iff)

text \<open>
  C4. For an addon that passed the checks before and whose manifest has no
  \<open>implementations\<close> key: without a file \<open>integration.py\<close> in the addon directory
  \<open>validate_addon_directory\<close> reports the missing implementations and returns False;
  with it the implementations check passes and validation goes on to the core version.
\<close>

theorem implicit_integration_py:
  assumes loaded: "manifest_loaded fs repo_path addon_id (JObj kvs)"
    and keys: "has_key kvs (S ''domain'')" "has_key kvs (S ''name'')" "has_key kvs (S ''version'')"
    and dom: "map_of kvs (S ''domain'') = Some (JStr d)"
    and ident: "isidentifier rt d"
    and noimpl: "\<not> has_key kvs (S ''implementations'')"
    and paths: "addon_path = path_join repo_path addon_id"
      "manifest_path = path_join addon_path (S ''manifest.json'')"
  shows
    "(\<not> path_exists fs (path_join addon_path (S ''integration.py'')) \<longrightarrow>
        validate_addon_directory rt version fs repo_path (JStr addon_id) core
        = (Returns False,
           error (S ''manifest.json in '' @ quoted addon_id @ S '' missing ''
                  @ quoted (S ''implementations'') @ S '' map, and no implicit ''
                  @ quoted (S ''integration.py'') @ S '' found.'')
             (Some manifest_path) None None))
     \<and> (path_exists fs (path_join addon_path (S ''integration.py'')) \<longrightarrow>
          check_implementations fs (JObj kvs) addon_path manifest_path addon_id = (None, [])
          \<and> validate_addon_directory rt version fs repo_path (JStr addon_id) core
            = finish (check_core_version rt version (JObj kvs) manifest_path addon_id core))"
proof -
  have v: "validate_addon_directory rt version fs repo_path (JStr addon_id) core
    = validate_manifest rt version fs (JObj kvs) addon_path manifest_path addon_id core"
    using validate_addon_directory_loaded [OF loaded] paths by simp
  have r: "check_required_fields (JObj kvs) manifest_path = (None, [])"
    using keys by (rule required_fields_present)
  have d: "check_domain rt (JObj kvs) manifest_path = (None, [])"
    using ident by (simp add: check_domain_string [OF dom])
  have i: "check_implementations fs (JObj kvs) addon_path manifest_path addon_id
    = (if path_exists fs (path_join addon_path (S ''integration.py'')) then (None, [])
       else (Some (Returns False),
             error (S ''manifest.json in '' @ quoted addon_id @ S '' missing ''
                  @ quoted (S ''implementations'') @ S '' map, and no implicit ''
                  @ quoted (S ''integration.py'') @ S '' found.'')
             (Some manifest_path) None None))"
    using no_key_map_of [OF noimpl] by (simp add: check_implementations_def)
  show ?thesis by (simp add: v validate_manifest_def r d i)
qed

text \<open>
  The theorem at the addon \<open>a\<close>, without and with \<open>integration.py\<close>.
\<close>

theorem implicit_integration_py_witness:
  "isidentifier plain_runtime (S ''a'')
   \<and> \<not> has_key [(S ''domain'', JStr (S ''a'')), (S ''name'', JStr (S ''A'')), (S ''version'', JStr (S ''1.0''))]
         (S ''implementations'')
   \<and> \<not> path_exists (repo_with None (manifest_with (JStr (S ''a'')) []) False) (S ''/r/a/integration.py'')
   \<and> validate_addon_directory plain_runtime (Some release_parse)
        (repo_with None (manifest_with (JStr (S ''a'')) []) False) (S ''/r'') (JStr (S ''a'')) None
      = (Returns False,
         error (S ''manifest.json in '' @ quoted (S ''a'') @ S '' missing ''
                @ quoted (S ''implementations'') @ S '' map, and no implicit ''
                @ quoted (S ''integration.py'') @ S '' found.'')
           (Some (S ''/r/a/manifest.json'')) None None)
   \<and> path_exists (repo_with None (manifest_with (JStr (S ''a'')) []) True) (S ''/r/a/integration.py'')
   \<and> check_implementations (repo_with None (manifest_with (JStr (S ''a'')) []) True)
        (manifest_with (JStr (S ''a'')) []) (S ''/r/a'') (S ''/r/a/manifest.json'') (S ''a'') = (None, [])"
proof -
  have p: "S ''/r/a'' = path_join (S ''/r'') (S ''a'')"
    "S ''/r/a/manifest.json'' = path_join (S ''/r/a'') (S ''manifest.json'')"
    by (simp_all add: path_join_def)
  have i: "isidentifier plain_runtime (S ''a'')"
    by (simp add: isidentifier_def xid_start_def ascii_letter_def)
  have n: "\<not> has_key ([(S ''domain'', JStr (S ''a'')), (S ''name'', JStr (S ''A'')), (S ''version'', JStr (S ''1.0''))] @ [])
         (S ''implementations'')"
    by (simp add: has_key_def)
  have e1: "\<not> path_exists (repo_with None (manifest_with (JStr (S ''a'')) []) False) (S ''/r/a/integration.py'')"
    by (simp add: path_exists_def repo_with_def)
  have e2: "path_exists (repo_with None (manifest_with (JStr (S ''a'')) []) True) (S ''/r/a/integration.py'')"
    by (simp add: path_exists_def repo_with_def python_file_def)
  note t1 = implicit_integration_py [where rt = plain_runtime and version = "Some release_parse"
      and core = None and d = "S ''a''",
      OF repo_with_loaded [of None "manifest_with (JStr (S ''a'')) []" False, unfolded manifest_with_def]
         manifest_with_keys _ i n p]
  note t2 = implicit_integration_py [where rt = plain_runtime and version = "Some release_parse"
      and core = None and d = "S ''a''",
      OF repo_with_loaded [of None "manifest_with (JStr (S ''a'')) []" True, unfolded manifest_with_def]
         manifest_with_keys _ i n p]
  show ?thesis using t1 t2 i n e1 e2 by (simp add: manifest_with_def path_join_def)
qed

subsection \<open>Exceptions and the core version\<close>

text \<open>
  C9. There are manifests, valid as JSON, on which \<open>validate_addon_directory\<close> ends in
  an exception that nothing catches, without reporting an error: every manifest with
  the required keys whose \<open>domain\<close> is not a string (AttributeError at
  \<open>isidentifier\<close>), and every one whose \<open>implementations\<close> is truthy and not a dict
  while \<open>integration.py\<close> exists (AttributeError at \<open>items\<close>).
\<close>

theorem uncaught_exceptions:
  assumes loaded: "manifest_loaded fs repo_path addon_id (JObj kvs)"
    and keys: "has_key kvs (S ''domain'')" "has_key kvs (S ''name'')" "has_key kvs (S ''version'')"
    and paths: "addon_path = path_join repo_path addon_id"
  shows
    "(map_of kvs (S ''domain'') = Some v \<and> (\<forall>s. v \<noteq> JStr s) \<longrightarrow>
        validate_addon_directory rt version fs repo_path (JStr addon_id) core
        = (Raises AttributeError, []))
     \<and> (map_of kvs (S ''domain'') = Some (JStr d) \<and> isidentifier rt d
        \<and> map_of kvs (S ''implementations'') = Some i \<and> truthy i \<and> \<not> is_dict i
        \<and> path_exists fs (path_join addon_path (S ''integration.py'')) \<longrightarrow>
        validate_addon_directory rt version fs repo_path (JStr addon_id) core
        = (Raises AttributeError, []))"
proof -
  define manifest_path where "manifest_path = path_join addon_path (S ''manifest.json'')"
  have v: "validate_addon_directory rt version fs repo_path (JStr addon_id) core
    = validate_manifest rt version fs (JObj kvs) addon_path manifest_path addon_id core"
    using validate_addon_directory_loaded [OF loaded] paths by (simp add: manifest_path_def)
  have r: "check_required_fields (JObj kvs) manifest_path = (None, [])"
    using keys by (rule required_fields_present)
  have a: "map_of kvs (S ''domain'') = Some v \<and> (\<forall>s. v \<noteq> JStr s) \<longrightarrow>
        validate_addon_directory rt version fs repo_path (JStr addon_id) core
        = (Raises AttributeError, [])"
    by (cases v) (simp_all add: v validate_manifest_def r check_domain_def)
  have b: "map_of kvs (S ''domain'') = Some (JStr d) \<and> isidentifier rt d
        \<and> map_of kvs (S ''implementations'') = Some i \<and> truthy i \<and> \<not> is_dict i
        \<and> path_exists fs (path_join addon_path (S ''integration.py'')) \<longrightarrow>
        validate_addon_directory rt version fs repo_path (JStr addon_id) core
        = (Raises AttributeError, [])"
    by (cases i) (simp_all add: v validate_manifest_def r check_domain_string check_implementations_def)
  show ?thesis using a b by blast
qed

text \<open>
  The two manifests: \<open>domain\<close> is the number 5; \<open>implementations\<close> is the list
  \<open>["x.py"]\<close> and \<open>integration.py\<close> exists.
\<close>

theorem uncaught_exceptions_witness:
  "validate_addon_directory plain_runtime (Some release_parse)
     (repo_with None (manifest_with (JInt 5) []) True) (S ''/r'') (JStr (S ''a'')) None
   = (Raises AttributeError, [])
   \<and> validate_addon_directory plain_runtime (Some release_parse)
       (repo_with None (manifest_with (JStr (S ''a'')) [(S ''implementations'', JArr [JStr (S ''x.py'')])]) True)
       (S ''/r'') (JStr (S ''a'')) None
     = (Raises AttributeError, [])"
proof -
  have p: "S ''/r/a'' = path_join (S ''/r'') (S ''a'')"
    by (simp add: path_join_def)
  have i: "isidentifier plain_runtime (S ''a'')"
    by (simp add: isidentifier_def xid_start_def ascii_letter_def)
  have e: "path_exists (repo_with None (manifest_with (JStr (S ''a'')) [(S ''implementations'', JArr [JStr (S ''x.py'')])]) True)
             (path_join (S ''/r/a'') (S ''integration.py''))"
    by (simp add: path_exists_def repo_with_def python_file_def path_join_def)
  note t1 = uncaught_exceptions [where rt = plain_runtime and version = "Some release_parse"
      and core = None and v = "JInt 5" and d = "[]" and i = JNull,
      OF repo_with_loaded [of None "manifest_with (JInt 5) []" True, unfolded manifest_with_def]
         manifest_with_keys p]
  note t2 = uncaught_exceptions [where rt = plain_runtime and version = "Some release_parse"
      and core = None and v = JNull and d = "S ''a''" and i = "JArr [JStr (S ''x.py'')]",
      OF repo_with_loaded [of None "manifest_with (JStr (S ''a''))  [(S ''implementations'', JArr [JStr (S ''x.py'')])]" True, unfolded manifest_with_def]
         manifest_with_keys p]
  show ?thesis using t1 t2 i e by (simp add: manifest_with_def)
qed

lemma validate_reaches_core_version:
  assumes loaded: "manifest_loaded fs repo_path addon_id (JObj kvs)"
    and keys: "has_key kvs (S ''domain'')" "has_key kvs (S ''name'')" "has_key kvs (S ''version'')"
    and dom: "map_of kvs (S ''domain'') = Some (JStr d)"
    and ident: "isidentifier rt d"
    and paths: "addon_path = path_join repo_path addon_id"
      "manifest_path = path_join addon_path (S ''manifest.json'')"
    and impl: "check_implementations fs (JObj kvs) addon_path manifest_path addon_id = (None, [])"
  shows "validate_addon_directory rt version fs repo_path (JStr addon_id) core
    = finish (check_core_version rt version (JObj kvs) manifest_path addon_id core)"
proof -
  have l: "validate_addon_directory rt version fs repo_path (JStr addon_id) core
    = validate_manifest rt version fs (JObj kvs) addon_path manifest_path addon_id core"
    using validate_addon_directory_loaded [OF loaded] paths by simp
  have r: "check_required_fields (JObj kvs) manifest_path = (None, [])"
    using keys by (rule required_fields_present)
  have d: "check_domain rt (JObj kvs) manifest_path = (None, [])"
    using ident by (simp add: check_domain_string [OF dom])
  show ?thesis by (simp add: l validate_manifest_def r d impl)
qed

text \<open>
  C5. With the version module available and \<open>min_core_version\<close> \<open>"2.0.0"\<close>, for an
  addon that passed the checks before: with the core version \<open>"1.9.0"\<close> (which the
  module parses as less than \<open>2.0.0\<close>) \<open>validate_addon_directory\<close> reports the
  incompatible core version and returns False; with a core version that parses as at
  least \<open>2.0.0\<close> the check passes; without a core version the check is skipped and
  passes.
\<close>

theorem core_version_compatibility:
  fixes parse :: "json \<Rightarrow> pystr + 'v::linorder"
  assumes loaded: "manifest_loaded fs repo_path addon_id (JObj kvs)"
    and keys: "has_key kvs (S ''domain'')" "has_key kvs (S ''name'')" "has_key kvs (S ''version'')"
    and dom: "map_of kvs (S ''domain'') = Some (JStr d)"
    and ident: "isidentifier rt d"
    and paths: "addon_path = path_join repo_path addon_id"
      "manifest_path = path_join addon_path (S ''manifest.json'')"
    and impl: "check_implementations fs (JObj kvs) addon_path manifest_path addon_id = (None, [])"
    and minv: "map_of kvs (S ''min_core_version'') = Some (JStr (S ''2.0.0''))"
  shows
    "(parse (JStr (S ''2.0.0'')) = Inr v2 \<and> parse (JStr (S ''1.9.0'')) = Inr v1 \<and> v1 < v2 \<longrightarrow>
        validate_addon_directory rt (Some parse) fs repo_path (JStr addon_id) (Some (S ''1.9.0''))
        = (Returns False,
           error (S ''Addon '' @ quoted addon_id @ S '' requires Core >= 2.0.0, but current Core is 1.9.0'')
             (Some manifest_path) None None))
     \<and> (parse (JStr (S ''2.0.0'')) = Inr v2 \<and> parse (JStr c) = Inr vc \<and> v2 \<le> vc \<longrightarrow>
          check_core_version rt (Some parse) (JObj kvs) manifest_path addon_id (Some c) = (None, [])
          \<and> validate_addon_directory rt (Some parse) fs repo_path (JStr addon_id) (Some c)
            = (Returns True, []))
     \<and> check_core_version rt (Some parse) (JObj kvs) manifest_path addon_id None = (None, [])
     \<and> validate_addon_directory rt (Some parse) fs repo_path (JStr addon_id) None = (Returns True, [])"
proof -
  have v: "\<And>core. validate_addon_directory rt (Some parse) fs repo_path (JStr addon_id) core
    = finish (check_core_version rt (Some parse) (JObj kvs) manifest_path addon_id core)"
    by (rule validate_reaches_core_version [OF loaded keys dom ident paths impl])
  have a: "parse (JStr (S ''2.0.0'')) = Inr v2 \<and> parse (JStr (S ''1.9.0'')) = Inr v1 \<and> v1 < v2 \<longrightarrow>
        validate_addon_directory rt (Some parse) fs repo_path (JStr addon_id) (Some (S ''1.9.0''))
        = (Returns False,
           error (S ''Addon '' @ quoted addon_id @ S '' requires Core >= 2.0.0, but current Core is 1.9.0'')
             (Some manifest_path) None None)"
    using minv by (simp add: v check_core_version_def fmt_def)
  have b: "parse (JStr (S ''2.0.0'')) = Inr v2 \<and> parse (JStr c) = Inr vc \<and> v2 \<le> vc \<longrightarrow>
          check_core_version rt (Some parse) (JObj kvs) manifest_path addon_id (Some c) = (None, [])"
    using minv by (auto simp add: check_core_version_def)
  have c: "check_core_version rt (Some parse) (JObj kvs) manifest_path addon_id None = (None, [])"
    by (simp add: check_core_version_def)
  show ?thesis using a b c by (simp add: v)
qed


lemma example_paths:
  "S ''/r/a'' = path_join (S ''/r'') (S ''a'')"
  "S ''/r/a/manifest.json'' = path_join (S ''/r/a'') (S ''manifest.json'')"
  by (simp_all add: path_join_def)

lemma example_identifier: "isidentifier plain_runtime (S ''a'')"
  by (simp add: isidentifier_def xid_start_def ascii_letter_def)

lemma example_implementations:
  "check_implementations (repo_with index manifest True)
     (JObj ([(S ''domain'', d), (S ''name'', JStr (S ''A'')), (S ''version'', JStr (S ''1.0''))]
            @ [(S ''min_core_version'', m)]))
     (S ''/r/a'') (S ''/r/a/manifest.json'') (S ''a'') = (None, [])"
  by (simp add: check_implementations_def path_exists_def repo_with_def python_file_def path_join_def)

text \<open>
  The theorem on the release versions: \<open>1.9.0\<close> is less than \<open>2.0.0\<close>, and
  \<open>2.1.0\<close> is not.
\<close>

theorem core_version_compatibility_witness:
  "release_parse (JStr (S ''2.0.0'')) = Inr [2]
   \<and> release_parse (JStr (S ''1.9.0'')) = Inr [1, 9]
   \<and> [1, 9] < [2 :: nat]
   \<and> validate_addon_directory plain_runtime (Some release_parse)
        (repo_with None (manifest_with (JStr (S ''a'')) [(S ''min_core_version'', JStr (S ''2.0.0''))]) True)
        (S ''/r'') (JStr (S ''a'')) (Some (S ''1.9.0''))
      = (Returns False,
         error (S ''Addon '' @ quoted (S ''a'') @ S '' requires Core >= 2.0.0, but current Core is 1.9.0'')
           (Some (S ''/r/a/manifest.json'')) None None)
   \<and> release_parse (JStr (S ''2.1.0'')) = Inr [2, 1]
   \<and> [2] \<le> [2, 1 :: nat]
   \<and> validate_addon_directory plain_runtime (Some release_parse)
        (repo_with None (manifest_with (JStr (S ''a'')) [(S ''min_core_version'', JStr (S ''2.0.0''))]) True)
        (S ''/r'') (JStr (S ''a'')) (Some (S ''2.1.0''))
      = (Returns True, [])
   \<and> validate_addon_directory plain_runtime (Some release_parse)
        (repo_with None (manifest_with (JStr (S ''a'')) [(S ''min_core_version'', JStr (S ''2.0.0''))]) True)
        (S ''/r'') (JStr (S ''a'')) None
      = (Returns True, [])"
proof -
  have p2: "release_parse (JStr (S ''2.0.0'')) = Inr [2]"
    and p1: "release_parse (JStr (S ''1.9.0'')) = Inr [1, 9]"
    and p3: "release_parse (JStr (S ''2.1.0'')) = Inr [2, 1]"
    by (simp_all add: release_parse_def number_of_def ascii_digit_def)
  have o1: "[1, 9] < [2 :: nat]" and o2: "[2] \<le> [2, 1 :: nat]"
    by simp_all
  have m: "map_of ([(S ''domain'', JStr (S ''a'')), (S ''name'', JStr (S ''A'')), (S ''version'', JStr (S ''1.0''))]
            @ [(S ''min_core_version'', JStr (S ''2.0.0''))]) (S ''min_core_version'') = Some (JStr (S ''2.0.0''))"
    by simp
  note t = core_version_compatibility [where rt = plain_runtime and parse = release_parse
      and d = "S ''a''" and ?v2.0 = "[2]" and ?v1.0 = "[1, 9]" and c = "S ''2.1.0''" and vc = "[2, 1]",
      OF repo_with_loaded [of None "manifest_with (JStr (S ''a'')) [(S ''min_core_version'', JStr (S ''2.0.0''))]" True,
           unfolded manifest_with_def]
         manifest_with_keys _ example_identifier example_paths example_implementations m]
  show ?thesis using t p1 p2 p3 o1 o2 by (simp add: manifest_with_def)
qed

text \<open>
  C2 (amended). With the version module available, for an addon that passed the checks
  before and was given a core version that is not empty: a \<open>min_core_version\<close> that
  is truthy and that the module cannot parse makes \<open>validate_addon_directory\<close> report
  that the version comparison failed, and return False. A falsy \<open>min_core_version\<close>
  (the empty string among them) or an empty core version skips the check; so does an
  absent core version, whatever \<open>min_core_version\<close> is, and so does a missing
  version module, whatever the core version is or when there is none.
\<close>

theorem unparseable_min_core_version:
  fixes parse :: "json \<Rightarrow> pystr + 'v::linorder"
  assumes loaded: "manifest_loaded fs repo_path addon_id (JObj kvs)"
    and keys: "has_key kvs (S ''domain'')" "has_key kvs (S ''name'')" "has_key kvs (S ''version'')"
    and dom: "map_of kvs (S ''domain'') = Some (JStr d)"
    and ident: "isidentifier rt d"
    and paths: "addon_path = path_join repo_path addon_id"
      "manifest_path = path_join addon_path (S ''manifest.json'')"
    and impl: "check_implementations fs (JObj kvs) addon_path manifest_path addon_id = (None, [])"
    and minv: "map_of kvs (S ''min_core_version'') = Some m"
  shows
    "(truthy m \<and> c \<noteq> [] \<and> parse m = Inl e \<longrightarrow>
        validate_addon_directory rt (Some parse) fs repo_path (JStr addon_id) (Some c)
        = (Returns False,
           error (S ''Version comparison failed for '' @ quoted addon_id
                  @ S '' (min: '' @ fmt rt m @ S '', core: '' @ c @ S ''): '' @ e)
             (Some manifest_path) None None))
     \<and> (\<not> truthy m \<or> c = [] \<longrightarrow>
          validate_addon_directory rt (Some parse) fs repo_path (JStr addon_id) (Some c)
          = (Returns True, []))
     \<and> validate_addon_directory rt (None :: (json \<Rightarrow> pystr + 'v) option) fs repo_path (JStr addon_id) (Some c)
       = (Returns True, [])
     \<and> validate_addon_directory rt (Some parse) fs repo_path (JStr addon_id) None
       = (Returns True, [])
     \<and> validate_addon_directory rt (None :: (json \<Rightarrow> pystr + 'v) option) fs repo_path (JStr addon_id) None
       = (Returns True, [])"
proof -
  have v: "\<And>(version :: (json \<Rightarrow> pystr + 'v) option) core.
    validate_addon_directory rt version fs repo_path (JStr addon_id) core
    = finish (check_core_version rt version (JObj kvs) manifest_path addon_id core)"
    by (rule validate_reaches_core_version [OF loaded keys dom ident paths impl])
  show ?thesis using minv by (auto simp add: v check_core_version_def)
qed

text \<open>
  The theorem at \<open>min_core_version\<close> \<open>"2.x"\<close>, with the core version \<open>"1.0"\<close> and
  without a core version.
\<close>

theorem unparseable_min_core_version_witness:
  "truthy (JStr (S ''2.x'')) \<and> S ''1.0'' \<noteq> []
   \<and> release_parse (JStr (S ''2.x'')) = Inl (S ''Invalid version: '' @ quoted (S ''2.x''))
   \<and> validate_addon_directory plain_runtime (Some release_parse)
        (repo_with None (manifest_with (JStr (S ''a'')) [(S ''min_core_version'', JStr (S ''2.x''))]) True)
        (S ''/r'') (JStr (S ''a'')) (Some (S ''1.0''))
      = (Returns False,
         error (S ''Version comparison failed for '' @ quoted (S ''a'')
                @ S '' (min: 2.x, core: 1.0): Invalid version: '' @ quoted (S ''2.x''))
           (Some (S ''/r/a/manifest.json'')) None None)
   \<and> validate_addon_directory plain_runtime (Some release_parse)
        (repo_with None (manifest_with (JStr (S ''a'')) [(S ''min_core_version'', JStr (S ''2.x''))]) True)
        (S ''/r'') (JStr (S ''a'')) None
      = (Returns True, [])"
proof -
  have f: "release_parse (JStr (S ''2.x'')) = Inl (S ''Invalid version: '' @ quoted (S ''2.x''))"
    by (simp add: release_parse_def number_of_def ascii_digit_def)
  have m: "map_of ([(S ''domain'', JStr (S ''a'')), (S ''name'', JStr (S ''A'')), (S ''version'', JStr (S ''1.0''))]
            @ [(S ''min_core_version'', JStr (S ''2.x''))]) (S ''min_core_version'') = Some (JStr (S ''2.x''))"
    by simp
  note t = unparseable_min_core_version [where rt = plain_runtime and parse = release_parse
      and d = "S ''a''" and c = "S ''1.0''" and e = "S ''Invalid version: '' @ quoted (S ''2.x'')",
      OF repo_with_loaded [of None "manifest_with (JStr (S ''a'')) [(S ''min_core_version'', JStr (S ''2.x''))]" True,
           unfolded manifest_with_def]
         manifest_with_keys _ example_identifier example_paths example_implementations m]
  show ?thesis using t f by (simp add: manifest_with_def fmt_def)
qed

text \<open>
  C2 as stated fails: the empty string does not parse as a version, and a manifest with
  \<open>"min_core_version": ""\<close> validates against the core version \<open>"1.0.0"\<close> with no
  error printed.
\<close>

theorem min_core_version_skipped_counterexample:
  "release_parse (JStr []) = Inl (S ''Invalid version: '' @ quoted [])
   \<and> validate_addon_directory plain_runtime (Some release_parse)
        (repo_with None (manifest_with (JStr (S ''a'')) [(S ''min_core_version'', JStr [])]) True)
        (S ''/r'') (JStr (S ''a'')) (Some (S ''1.0.0''))
      = (Returns True, [])"
  by code_simp

subsection \<open>The driver loop and the exit status\<close>

lemma index_loaded_validate:
  assumes "index_loaded fs repo_path kvs entries"
  shows "validate_addons_json fs repo_path = (Returns (Some (JObj kvs)), [])"
proof -
  have l: "json_load fs (path_join repo_path (S ''addons.json'')) = Loaded (JObj kvs)"
    and m: "map_of kvs (S ''addons'') = Some (JArr entries)"
    using assms by (simp_all add: index_loaded_def)
  have e: "path_exists fs (path_join repo_path (S ''addons.json''))"
    using l by (auto simp add: path_exists_def json_load_def split: option.splits)
  have k: "S ''addons'' \<in> fst ` set kvs"
    using m by (metis map_of_eq_None_iff option.distinct(1))
  show ?thesis
    using l m e k by (simp add: validate_addons_json_def)
qed

lemma main_index_loaded:
  assumes "index_loaded fs (abspath rt args_repo_path) kvs entries"
  shows "main rt version fs args_repo_path core
    = (case main_loop rt version fs (abspath rt args_repo_path) core 0 True entries of
         (Raises x, t) \<Rightarrow> (Uncaught x, banner (abspath rt args_repo_path) core @ t)
       | (Returns success, t) \<Rightarrow>
           if \<not> success
           then (Exit 1, banner (abspath rt args_repo_path) core @ t @ [Stdout (S ''Validation FAILED.'')])
           else (Exit 0, banner (abspath rt args_repo_path) core @ t @ [Stdout (S ''Validation SUCCESSFUL.'')]))"
proof -
  have m: "map_of kvs (S ''addons'') = Some (JArr entries)"
    using assms by (simp add: index_loaded_def)
  then have n: "kvs \<noteq> []" by auto
  show ?thesis
    using m n
    by (simp add: main_def index_loaded_validate [OF assms] banner_def Let_def
        split: prod.splits result.splits)
qed

lemma main_loop_failed_stays:
  "main_loop rt version fs repo_path core i False entries \<noteq> (Returns True, t)"
proof (induction entries arbitrary: i t)
  case Nil
  show ?case by simp
next
  case (Cons a entries)
  show ?case
    using Cons.IH
    by (auto simp add: Let_def split: result.splits prod.splits)
qed

lemma main_loop_append:
  "main_loop rt version fs repo_path core i success (pre @ post)
   = (case main_loop rt version fs repo_path core i success pre of
        (Raises x, t) \<Rightarrow> (Raises x, t)
      | (Returns s, t) \<Rightarrow>
          (fst (main_loop rt version fs repo_path core (i + length pre) s post),
           t @ snd (main_loop rt version fs repo_path core (i + length pre) s post)))"
proof (induction pre arbitrary: i success)
  case Nil
  show ?case by simp
next
  case (Cons a pre)
  show ?case
    by (simp add: Cons.IH Let_def split: result.splits prod.splits)
qed


lemma exit_status_failed:
  assumes "index_loaded fs (abspath rt args_repo_path) kvs entries"
    and "fst (main_loop rt version fs (abspath rt args_repo_path) core 0 True entries) \<noteq> Returns True"
  shows "exit_status (fst (main rt version fs args_repo_path core)) = 1"
  using assms(2)
  by (auto simp add: main_index_loaded [OF assms(1)] split: prod.splits result.splits)

lemma main_loop_failing_entry:
  assumes "\<And>i s. fst (main_loop rt version fs repo_path core i s (e # rest)) \<noteq> Returns True"
  shows "fst (main_loop rt version fs repo_path core 0 True (pre @ e # rest)) \<noteq> Returns True"
  using assms [of "length pre"]
  by (auto simp add: main_loop_append split: prod.splits result.splits)

lemma fst_main_loop_failed:
  "fst (main_loop rt version fs repo_path core i False entries) \<noteq> Returns True"
  using main_loop_failed_stays [of rt version fs repo_path core i entries]
  by (metis prod.collapse)

lemma main_loop_no_id:
  assumes "py_get entry (S ''id'') = Returns addon_id" and "\<not> truthy addon_id"
  shows "main_loop rt version fs repo_path core i success (entry # rest)
    = (fst (main_loop rt version fs repo_path core (Suc i) False rest),
       error (S ''Addon entry at index '' @ digits i @ S '' missing '' @ quoted (S ''id''))
         (Some (path_join repo_path (S ''addons.json''))) None None
       @ snd (main_loop rt version fs repo_path core (Suc i) False rest))"
  using assms by (simp add: Let_def split: prod.splits)

lemma validate_missing_directory:
  assumes "\<not> isdir fs (path_join repo_path a)"
  shows "validate_addon_directory rt version fs repo_path (JStr a) core
    = (Returns False,
       error (S ''Directory not found for addon '' @ quoted a) (Some (path_join repo_path a)) None None)"
  using assms by (simp add: validate_addon_directory_def)

lemma main_loop_missing_directory:
  assumes "py_get entry (S ''id'') = Returns (JStr a)" and "a \<noteq> []"
    and "\<not> isdir fs (path_join repo_path a)"
  shows "main_loop rt version fs repo_path core i success (entry # rest)
    = (fst (main_loop rt version fs repo_path core (Suc i) False rest),
       [Stdout (S ''Validating addon: '' @ a @ S ''...'')]
       @ error (S ''Directory not found for addon '' @ quoted a) (Some (path_join repo_path a)) None None
       @ snd (main_loop rt version fs repo_path core (Suc i) False rest))"
  using assms(1,2)
  by (simp add: validate_missing_directory [OF assms(3)] fmt_def Let_def split: prod.splits)

text \<open>
  C7. When the repository root has no \<open>addons.json\<close>, \<open>main\<close> prints its banner and
  makes exactly one call of the error reporter, which names the path of the index, then
  exits with status 1: nothing else is printed, so no addon is validated.
\<close>

theorem missing_index:
  assumes "repo_path = abspath rt args_repo_path"
    and "json_path = path_join repo_path (S ''addons.json'')"
    and "\<not> path_exists fs json_path"
  shows
    "main rt version fs args_repo_path core
     = (Exit 1,
        banner repo_path core
        @ error (S ''addons.json missing in repository root'') (Some json_path) None None)
     \<and> exit_status (fst (main rt version fs args_repo_path core)) = 1
     \<and> stderr_text (snd (main rt version fs args_repo_path core))
       = S ''ERROR: addons.json missing in repository root'' @ [10]"
proof -
  have v: "validate_addons_json fs repo_path
    = (Returns None, error (S ''addons.json missing in repository root'') (Some json_path) None None)"
    using assms(2,3) by (simp add: validate_addons_json_def)
  have m: "main rt version fs args_repo_path core
     = (Exit 1,
        banner repo_path core
        @ error (S ''addons.json missing in repository root'') (Some json_path) None None)"
    using v assms(1) by (simp add: main_def banner_def Let_def)
  have b: "stderr_text (banner repo_path core) = []"
    by (simp add: banner_def split: option.splits)
  have e: "stderr_text (error (S ''addons.json missing in repository root'') (Some json_path) None None)
    = S ''ERROR: addons.json missing in repository root'' @ [10]"
    by (simp add: error_def Let_def)
  show ?thesis by (simp only: m fst_conv snd_conv exit_status.simps stderr_text_append b e) simp
qed

text \<open>
  The theorem on the repository \<open>/r\<close> without an index.
\<close>

theorem missing_index_witness:
  "\<not> path_exists (repo_with None JNull False) (S ''/r/addons.json'')
   \<and> main plain_runtime (Some release_parse) (repo_with None JNull False) (S ''/r'') None
     = (Exit 1,
        [Stdout (S ''Validating repository at: /r''),
         Stdout (S ''::error file=/r/addons.json::addons.json missing in repository root''),
         Stderr (S ''ERROR: addons.json missing in repository root'')])"
proof -
  have r: "S ''/r'' = abspath plain_runtime (S ''/r'')"
    by (simp add: plain_runtime_def)
  have j: "S ''/r/addons.json'' = path_join (S ''/r'') (S ''addons.json'')"
    by (simp add: path_join_def)
  have n: "\<not> path_exists (repo_with None JNull False) (S ''/r/addons.json'')"
    by (simp add: path_exists_def repo_with_def)
  show ?thesis
    using missing_index [OF r j n, of "Some release_parse" None] n
    by (simp add: banner_def error_def)
qed


text \<open>
  C10. For an index entry whose \<open>id\<close> is missing or falsy, the loop of \<open>main\<close> makes
  one call of the error reporter, naming the index file and the position of the entry,
  and goes on with the remaining entries with the flag cleared; for that entry nothing
  else is printed and \<open>validate_addon_directory\<close> is not called. When the entries before
  it end without an exception this happens at its position in the index, and the exit
  status of the run is 1.
\<close>

theorem entry_without_id:
  assumes get: "py_get entry (S ''id'') = Returns addon_id"
    and falsy: "\<not> truthy addon_id"
    and path: "index_path = path_join repo_path (S ''addons.json'')"
  shows
    "main_loop rt version fs repo_path core i success (entry # rest)
     = (fst (main_loop rt version fs repo_path core (Suc i) False rest),
        error (S ''Addon entry at index '' @ digits i @ S '' missing '' @ quoted (S ''id''))
          (Some index_path) None None
        @ snd (main_loop rt version fs repo_path core (Suc i) False rest))
     \<and> (main_loop rt version fs repo_path core 0 True pre = (Returns s, t) \<longrightarrow>
          main_loop rt version fs repo_path core 0 True (pre @ entry # rest)
          = (fst (main_loop rt version fs repo_path core (Suc (length pre)) False rest),
             t @ error (S ''Addon entry at index '' @ digits (length pre) @ S '' missing '' @ quoted (S ''id''))
                   (Some index_path) None None
             @ snd (main_loop rt version fs repo_path core (Suc (length pre)) False rest)))
     \<and> (repo_path = abspath rt args_repo_path \<and> index_loaded fs repo_path kvs (pre @ entry # rest) \<longrightarrow>
          exit_status (fst (main rt version fs args_repo_path core)) = 1)"
proof -
  note step = main_loop_no_id [OF get falsy, of rt version fs repo_path core, folded path]
  have a: "main_loop rt version fs repo_path core 0 True pre = (Returns s, t) \<longrightarrow>
          main_loop rt version fs repo_path core 0 True (pre @ entry # rest)
          = (fst (main_loop rt version fs repo_path core (Suc (length pre)) False rest),
             t @ error (S ''Addon entry at index '' @ digits (length pre) @ S '' missing '' @ quoted (S ''id''))
                   (Some index_path) None None
             @ snd (main_loop rt version fs repo_path core (Suc (length pre)) False rest))"
    by (simp add: main_loop_append step del: main_loop.simps)
  have f: "\<And>i s. fst (main_loop rt version fs repo_path core i s (entry # rest)) \<noteq> Returns True"
    by (simp add: step fst_main_loop_failed del: main_loop.simps)
  have b: "repo_path = abspath rt args_repo_path \<and> index_loaded fs repo_path kvs (pre @ entry # rest) \<longrightarrow>
          exit_status (fst (main rt version fs args_repo_path core)) = 1"
    using exit_status_failed [of fs rt args_repo_path kvs "pre @ entry # rest" version core]
      main_loop_failing_entry [of rt version fs repo_path core entry rest pre, OF f]
    by blast
  show ?thesis using step a b by blast
qed

text \<open>
  C6. For an index entry whose \<open>id\<close> is a string that names no directory under the
  repository root, \<open>validate_addon_directory\<close> reports the missing directory and returns
  False, and the loop of \<open>main\<close> goes on with the remaining entries with the flag
  cleared. When the entries before it end without an exception this happens at its
  position in the index, and the exit status of the run is 1, whatever the other addons
  give.
\<close>

theorem missing_directory_continues:
  assumes get: "py_get entry (S ''id'') = Returns (JStr a)"
    and truthy: "a \<noteq> []"
    and absent: "\<not> isdir fs (path_join repo_path a)"
  shows
    "validate_addon_directory rt version fs repo_path (JStr a) core
     = (Returns False,
        error (S ''Directory not found for addon '' @ quoted a) (Some (path_join repo_path a)) None None)
     \<and> main_loop rt version fs repo_path core i success (entry # rest)
       = (fst (main_loop rt version fs repo_path core (Suc i) False rest),
          [Stdout (S ''Validating addon: '' @ a @ S ''...'')]
          @ error (S ''Directory not found for addon '' @ quoted a) (Some (path_join repo_path a)) None None
          @ snd (main_loop rt version fs repo_path core (Suc i) False rest))
     \<and> (main_loop rt version fs repo_path core 0 True pre = (Returns s, t) \<longrightarrow>
          main_loop rt version fs repo_path core 0 True (pre @ entry # rest)
          = (fst (main_loop rt version fs repo_path core (Suc (length pre)) False rest),
             t @ [Stdout (S ''Validating addon: '' @ a @ S ''...'')]
             @ error (S ''Directory not found for addon '' @ quoted a) (Some (path_join repo_path a)) None None
             @ snd (main_loop rt version fs repo_path core (Suc (length pre)) False rest)))
     \<and> (repo_path = abspath rt args_repo_path \<and> index_loaded fs repo_path kvs (pre @ entry # rest) \<longrightarrow>
          exit_status (fst (main rt version fs args_repo_path core)) = 1)"
proof -
  note v = validate_missing_directory [OF absent, of rt version core]
  note step = main_loop_missing_directory [OF get truthy absent, of rt version core]
  have a: "main_loop rt version fs repo_path core 0 True pre = (Returns s, t) \<longrightarrow>
          main_loop rt version fs repo_path core 0 True (pre @ entry # rest)
          = (fst (main_loop rt version fs repo_path core (Suc (length pre)) False rest),
             t @ [Stdout (S ''Validating addon: '' @ a @ S ''...'')]
             @ error (S ''Directory not found for addon '' @ quoted a) (Some (path_join repo_path a)) None None
             @ snd (main_loop rt version fs repo_path core (Suc (length pre)) False rest))"
    by (simp add: main_loop_append step del: main_loop.simps)
  have f: "\<And>i s. fst (main_loop rt version fs repo_path core i s (entry # rest)) \<noteq> Returns True"
    by (simp add: step fst_main_loop_failed del: main_loop.simps)
  have b: "repo_path = abspath rt args_repo_path \<and> index_loaded fs repo_path kvs (pre @ entry # rest) \<longrightarrow>
          exit_status (fst (main rt version fs args_repo_path core)) = 1"
    using exit_status_failed [of fs rt args_repo_path kvs "pre @ entry # rest" version core]
      main_loop_failing_entry [of rt version fs repo_path core entry rest pre, OF f]
    by blast
  show ?thesis using v step a b by blast
qed


lemma digits_small: "n < 10 \<Longrightarrow> digits n = [48 + n]"
  by (subst digits.simps) simp

lemma example_index_loaded:
  "index_loaded (repo_with (Some (index_of entries)) manifest impl) (S ''/r'')
     [(S ''addons'', JArr entries)] entries"
  by (simp add: index_loaded_def repo_with_def index_of_def json_load_def path_join_def)

lemma example_validates:
  "validate_addon_directory plain_runtime (Some release_parse)
     (repo_with index (manifest_with (JStr (S ''a'')) []) True) (S ''/r'') (JStr (S ''a'')) None
   = (Returns True, [])"
  apply (subst validate_addon_directory_loaded [OF repo_with_loaded])
  apply (simp add: validate_manifest_def manifest_with_def check_required_fields_def
      required_manifest_fields_def check_domain_def isidentifier_def xid_start_def ascii_letter_def
      check_implementations_def check_core_version_def path_exists_def repo_with_def
      python_file_def path_join_def)
  done

lemma example_valid_entry:
  "main_loop plain_runtime (Some release_parse)
     (repo_with index (manifest_with (JStr (S ''a'')) []) True) (S ''/r'') None i success
     [entry_with_id (S ''a'')]
   = (Returns success, [Stdout (S ''Validating addon: a...'')])"
  using example_validates [of index] by (simp add: entry_with_id_def fmt_def)

text \<open>
  The theorem on the index \<open>[{"id": "a"}, {"id": ""}, {}]\<close>, whose first addon is valid.
\<close>

theorem entry_without_id_witness:
  "\<not> truthy (JStr [])
   \<and> exit_status (fst (main plain_runtime (Some release_parse)
        (repo_with (Some (index_of [entry_with_id (S ''a''), entry_with_id [], JObj []]))
           (manifest_with (JStr (S ''a'')) []) True)
        (S ''/r'') None)) = 1
   \<and> main_loop plain_runtime (Some release_parse)
        (repo_with (Some (index_of [entry_with_id (S ''a''), entry_with_id [], JObj []]))
           (manifest_with (JStr (S ''a'')) []) True)
        (S ''/r'') None 0 True [entry_with_id (S ''a''), entry_with_id [], JObj []]
     = (Returns False,
        [Stdout (S ''Validating addon: a...'')]
        @ error (S ''Addon entry at index 1 missing '' @ quoted (S ''id''))
            (Some (S ''/r/addons.json'')) None None
        @ error (S ''Addon entry at index 2 missing '' @ quoted (S ''id''))
            (Some (S ''/r/addons.json'')) None None)"
proof -
  have g: "py_get (entry_with_id []) (S ''id'') = Returns (JStr [])"
    by (simp add: entry_with_id_def)
  have f: "\<not> truthy (JStr [])" by simp
  have j: "S ''/r/addons.json'' = path_join (S ''/r'') (S ''addons.json'')"
    by (simp add: path_join_def)
  have r: "S ''/r'' = abspath plain_runtime (S ''/r'')"
    by (simp add: plain_runtime_def)
  note t = entry_without_id [OF g f j, where rt = plain_runtime and version = "Some release_parse"
      and fs = "repo_with (Some (index_of [entry_with_id (S ''a''), entry_with_id [], JObj []]))
           (manifest_with (JStr (S ''a'')) []) True"
      and core = None and pre = "[entry_with_id (S ''a'')]" and rest = "[JObj []]"
      and s = True and t = "[Stdout (S ''Validating addon: a...'')]"
      and args_repo_path = "S ''/r''" and kvs = "[(S ''addons'', JArr [entry_with_id (S ''a''), entry_with_id [], JObj []])]"
      and i = 0 and success = True]
  have p: "[entry_with_id (S ''a'')] @ entry_with_id [] # [JObj []]
    = [entry_with_id (S ''a''), entry_with_id [], JObj []]" by simp
  show ?thesis
    using t example_valid_entry [where i = 0 and success = True and index = "Some (index_of [entry_with_id (S ''a''), entry_with_id [], JObj []])"]
      example_index_loaded [of "[entry_with_id (S ''a''), entry_with_id [], JObj []]" "manifest_with (JStr (S ''a'')) []" True]
      r
    unfolding p
    by (simp add: digits_small path_join_def)
qed

text \<open>
  The theorem on the index \<open>[{"id": "a"}, {"id": "b"}, {"id": "a"}]\<close>, where \<open>a\<close> is
  valid and \<open>b\<close> has no directory: the third entry is validated after the failure.
\<close>

theorem missing_directory_continues_witness:
  "\<not> isdir (repo_with (Some (index_of [entry_with_id (S ''a''), entry_with_id (S ''b''), entry_with_id (S ''a'')]))
           (manifest_with (JStr (S ''a'')) []) True) (S ''/r/b'')
   \<and> exit_status (fst (main plain_runtime (Some release_parse)
        (repo_with (Some (index_of [entry_with_id (S ''a''), entry_with_id (S ''b''), entry_with_id (S ''a'')]))
           (manifest_with (JStr (S ''a'')) []) True)
        (S ''/r'') None)) = 1
   \<and> main_loop plain_runtime (Some release_parse)
        (repo_with (Some (index_of [entry_with_id (S ''a''), entry_with_id (S ''b''), entry_with_id (S ''a'')]))
           (manifest_with (JStr (S ''a'')) []) True)
        (S ''/r'') None 0 True [entry_with_id (S ''a''), entry_with_id (S ''b''), entry_with_id (S ''a'')]
     = (Returns False,
        [Stdout (S ''Validating addon: a...''), Stdout (S ''Validating addon: b...'')]
        @ error (S ''Directory not found for addon '' @ quoted (S ''b'')) (Some (S ''/r/b'')) None None
        @ [Stdout (S ''Validating addon: a...'')])"
proof -
  have g: "py_get (entry_with_id (S ''b'')) (S ''id'') = Returns (JStr (S ''b''))"
    by (simp add: entry_with_id_def)
  have f: "S ''b'' \<noteq> []" by simp
  have d: "\<not> isdir (repo_with (Some (index_of [entry_with_id (S ''a''), entry_with_id (S ''b''), entry_with_id (S ''a'')]))
           (manifest_with (JStr (S ''a'')) []) True) (path_join (S ''/r'') (S ''b''))"
    by (simp add: isdir_def repo_with_def path_join_def)
  have r: "S ''/r'' = abspath plain_runtime (S ''/r'')"
    by (simp add: plain_runtime_def)
  note t = missing_directory_continues [OF g f d, where rt = plain_runtime and version = "Some release_parse"
      and core = None and pre = "[entry_with_id (S ''a'')]" and rest = "[entry_with_id (S ''a'')]"
      and s = True and t = "[Stdout (S ''Validating addon: a...'')]"
      and args_repo_path = "S ''/r''" and kvs = "[(S ''addons'', JArr [entry_with_id (S ''a''), entry_with_id (S ''b''), entry_with_id (S ''a'')])]"
      and i = 0 and success = True]
  have p: "[entry_with_id (S ''a'')] @ entry_with_id (S ''b'') # [entry_with_id (S ''a'')]
    = [entry_with_id (S ''a''), entry_with_id (S ''b''), entry_with_id (S ''a'')]" by simp
  note q = example_valid_entry [where i = "Suc (Suc 0)" and success = False
      and index = "Some (index_of [entry_with_id (S ''a''), entry_with_id (S ''b''), entry_with_id (S ''a'')])"]
  show ?thesis
    using t example_valid_entry [where i = 0 and success = True and index = "Some (index_of [entry_with_id (S ''a''), entry_with_id (S ''b''), entry_with_id (S ''a'')])"]
      example_index_loaded [of "[entry_with_id (S ''a''), entry_with_id (S ''b''), entry_with_id (S ''a'')]" "manifest_with (JStr (S ''a'')) []" True]
      r d q
    unfolding p
    by (simp add: path_join_def del: main_loop.simps)
qed

end
